theory Spec2Isabelle
  imports Complex_Main
begin

section \<open>The stopping-distance kernel of stopping.py\<close>

text \<open>
  The kernel computes with Python floats. They are modelled as real numbers, and
  \<^verbatim>\<open>float('inf')\<close> as the extra value \<open>PosInf\<close>: rounding, overflow and NaN are
  outside this model. A float division by zero raises \<^verbatim>\<open>ZeroDivisionError\<close> in Python;
  the model returns it as an error value. The \<^verbatim>\<open>while\<close> loops take a fuel argument
  that bounds the number of iterations: running out of fuel is the value \<open>None\<close>.
\<close>

datatype pyfloat = Finite real | PosInf

datatype error = ZeroDivisionError


definition AIR_DENSITY :: real where
  "AIR_DENSITY = 1.225"

definition G :: real where
  "G = 9.81"

definition convert_kmh_to_ms :: "real \<Rightarrow> real" where
  "convert_kmh_to_ms speed_kmh = speed_kmh * 1000 / 3600"

definition convert_ms_to_kmh :: "real \<Rightarrow> real" where
  "convert_ms_to_kmh speed_ms = speed_ms * 3.6"

definition calc_final_friction :: "real \<Rightarrow> real \<Rightarrow> bool \<Rightarrow> real" where
  "calc_final_friction weather_mu tyre_factor abs_active =
     (let mu = weather_mu * tyre_factor;
          mu = (if abs_active then mu + 0.05 else mu)
      in max mu 0.01)"

subsection \<open>The closed-form model\<close>

text \<open>The result is the tuple \<open>(total_dist, braking_dist, reaction_dist)\<close> of the source.\<close>

definition stopping_distance_simple_friction ::
  "real \<Rightarrow> real \<Rightarrow> real \<Rightarrow> real \<Rightarrow> pyfloat \<times> pyfloat \<times> pyfloat" where
  "stopping_distance_simple_friction speed_kmh mu slope_percent reaction_time =
     (let speed_ms = convert_kmh_to_ms speed_kmh;
          alpha = arctan (\<bar>slope_percent\<bar> / 100);
          is_uphill = (slope_percent \<ge> 0);
          reaction_dist = speed_ms * reaction_time;
          slope_acc = (if is_uphill then - G * sin alpha else G * sin alpha);
          a_eff = - mu * G * cos alpha + slope_acc
      in if a_eff \<le> 0 then (PosInf, PosInf, Finite reaction_dist)
         else
           let braking_dist = speed_ms\<^sup>2 / (2 * a_eff);
               total_dist = reaction_dist + braking_dist
           in (Finite total_dist, Finite braking_dist, Finite reaction_dist))"

subsection \<open>The numeric model\<close>

definition max_time :: real where
  "max_time = 300"

text \<open>
  The braking loop of \<^verbatim>\<open>stopping_distance_numeric_drag\<close> on the state \<open>(v, x, t)\<close>.
  On the branch \<^verbatim>\<open>v_new < 0\<close> the source assigns \<^verbatim>\<open>v_new = 0\<close> and breaks:
  \<open>v\<close> and \<open>t\<close> keep their values.
\<close>

fun numeric_loop ::
  "nat \<Rightarrow> real \<Rightarrow> real \<Rightarrow> real \<Rightarrow> real \<Rightarrow> real \<Rightarrow> bool \<Rightarrow> real
     \<Rightarrow> real \<times> real \<times> real \<Rightarrow> (error + real \<times> real \<times> real) option" where
  "numeric_loop 0 mu mass_kg cd frontal_area alpha is_uphill dt (v, x, t) = None"
| "numeric_loop (Suc n) mu mass_kg cd frontal_area alpha is_uphill dt (v, x, t) =
     (if t < max_time then
        if mass_kg = 0 then Some (Inl ZeroDivisionError)
        else
          let drag_acc = (0.5 * AIR_DENSITY * cd * frontal_area * v\<^sup>2) / mass_kg;
              slope_acc = (if is_uphill then - G * sin alpha else G * sin alpha);
              a = - mu * G * cos alpha + slope_acc - drag_acc;
              v_new = v + a * dt
          in if v_new < 0 then
               let dist_this_step = 0.5 * (v + 0) * dt
               in Some (Inr (v, x + dist_this_step, t))
             else
               let dist_this_step = 0.5 * (v + v_new) * dt;
                   x' = x + dist_this_step;
                   v' = v_new;
                   t' = t + dt
               in if v' \<le> 0.01 then Some (Inr (0, x', t'))
                  else numeric_loop n mu mass_kg cd frontal_area alpha is_uphill dt (v', x', t')
      else Some (Inr (v, x, t)))"

record numeric_result =
  dist_total :: real
  dist_reaction :: real
  dist_braking :: real
  total_time :: real
  final_v :: real

definition stopping_distance_numeric_drag ::
  "nat \<Rightarrow> real \<Rightarrow> real \<Rightarrow> real \<Rightarrow> real \<Rightarrow> real \<Rightarrow> real \<Rightarrow> real \<Rightarrow> real
     \<Rightarrow> (error + numeric_result) option" where
  "stopping_distance_numeric_drag fuel speed_kmh mu mass_kg cd frontal_area slope_percent
       reaction_time dt =
     (let speed_ms = convert_kmh_to_ms speed_kmh;
          reaction_dist = speed_ms * reaction_time;
          alpha = arctan (\<bar>slope_percent\<bar> / 100);
          is_uphill = (slope_percent \<ge> 0)
      in case numeric_loop fuel mu mass_kg cd frontal_area alpha is_uphill dt (speed_ms, 0, 0) of
           None \<Rightarrow> None
         | Some (Inl e) \<Rightarrow> Some (Inl e)
         | Some (Inr (v, x, t)) \<Rightarrow>
             let braking_dist = x;
                 total_dist = reaction_dist + braking_dist;
                 total_time = reaction_time + t
             in Some (Inr \<lparr>dist_total = total_dist, dist_reaction = reaction_dist,
                           dist_braking = braking_dist, total_time = total_time,
                           final_v = v\<rparr>))"

subsection \<open>The profile sampler\<close>

text \<open>
  The reaction phase of \<^verbatim>\<open>get_distance_speed_profile\<close> on the state
  \<open>(x, t, distance_vals, speed_vals_kmh)\<close>; the speed \<open>v\<close> does not change in it.
\<close>

fun reaction_phase ::
  "nat \<Rightarrow> real \<Rightarrow> real \<Rightarrow> real \<Rightarrow> real \<times> real \<times> real list \<times> real list
     \<Rightarrow> (real \<times> real \<times> real list \<times> real list) option" where
  "reaction_phase 0 reaction_time dt v (x, t, distance_vals, speed_vals_kmh) = None"
| "reaction_phase (Suc n) reaction_time dt v (x, t, distance_vals, speed_vals_kmh) =
     (if t \<le> reaction_time then
        reaction_phase n reaction_time dt v
          (x + v * dt, t + dt, distance_vals @ [x], speed_vals_kmh @ [convert_ms_to_kmh v])
      else Some (x, t, distance_vals, speed_vals_kmh))"

text \<open>The braking phase, on the state \<open>(x, v, t, distance_vals, speed_vals_kmh)\<close>.\<close>

fun braking_phase ::
  "nat \<Rightarrow> real \<Rightarrow> real \<Rightarrow> real \<Rightarrow> real \<Rightarrow> real \<Rightarrow> bool \<Rightarrow> real \<Rightarrow> real
     \<Rightarrow> real \<times> real \<times> real \<times> real list \<times> real list
     \<Rightarrow> (error + real \<times> real \<times> real \<times> real list \<times> real list) option" where
  "braking_phase 0 mu mass_kg cd frontal_area alpha is_uphill reaction_time dt
       (x, v, t, distance_vals, speed_vals_kmh) = None"
| "braking_phase (Suc n) mu mass_kg cd frontal_area alpha is_uphill reaction_time dt
       (x, v, t, distance_vals, speed_vals_kmh) =
     (if t \<le> reaction_time + max_time then
        if mass_kg = 0 then Some (Inl ZeroDivisionError)
        else
          let drag_acc = 0.5 * AIR_DENSITY * cd * frontal_area * v\<^sup>2 / mass_kg;
              slope_acc = (if is_uphill then - G * sin alpha else G * sin alpha);
              a = - mu * G * cos alpha + slope_acc - drag_acc;
              v_new = v + a * dt;
              v_new = (if v_new < 0 then 0 else v_new);
              distance_vals' = distance_vals @ [x];
              speed_vals_kmh' = speed_vals_kmh @ [convert_ms_to_kmh v_new];
              avg_speed = 0.5 * (v + v_new);
              x' = x + avg_speed * dt;
              t' = t + dt
          in if v_new \<le> 0.01 then Some (Inr (x', v_new, t', distance_vals', speed_vals_kmh'))
             else braking_phase n mu mass_kg cd frontal_area alpha is_uphill reaction_time dt
                    (x', v_new, t', distance_vals', speed_vals_kmh')
      else Some (Inr (x, v, t, distance_vals, speed_vals_kmh)))"

text \<open>The sampler returns the pair \<open>(distance_vals, speed_vals_kmh)\<close>.\<close>

definition get_distance_speed_profile ::
  "nat \<Rightarrow> real \<Rightarrow> real \<Rightarrow> real \<Rightarrow> real \<Rightarrow> real \<Rightarrow> real \<Rightarrow> real \<Rightarrow> real
     \<Rightarrow> (error + real list \<times> real list) option" where
  "get_distance_speed_profile fuel speed_kmh mu mass_kg cd frontal_area slope_percent
       reaction_time dt =
     (let speed_ms = convert_kmh_to_ms speed_kmh;
          alpha = arctan (\<bar>slope_percent\<bar> / 100);
          is_uphill = (slope_percent \<ge> 0)
      in case reaction_phase fuel reaction_time dt speed_ms (0, 0, [], []) of
           None \<Rightarrow> None
         | Some (x, t, distance_vals, speed_vals_kmh) \<Rightarrow>
             (case braking_phase fuel mu mass_kg cd frontal_area alpha is_uphill reaction_time dt
                     (x, speed_ms, t, distance_vals, speed_vals_kmh) of
                None \<Rightarrow> None
              | Some (Inl e) \<Rightarrow> Some (Inl e)
              | Some (Inr (x', v', t', distance_vals', speed_vals_kmh')) \<Rightarrow>
                  Some (Inr (distance_vals', speed_vals_kmh'))))"

subsection \<open>The quantities of the specification\<close>

text \<open>
  These definitions follow the words of the specification, to compare the source with:
  the speed in m/s, the grade angle, the slope and drag accelerations and the effective
  acceleration of the closed-form model.
\<close>

definition speedMs :: "real \<Rightarrow> real" where
  "speedMs speedKmh = speedKmh * 1000 / 3600"

definition gradeAngle :: "real \<Rightarrow> real" where
  "gradeAngle slopePercent = arctan (\<bar>slopePercent\<bar> / 100)"

definition slopeAcceleration :: "real \<Rightarrow> real" where
  "slopeAcceleration slopePercent =
     (if slopePercent \<ge> 0 then - (9.81 * sin (gradeAngle slopePercent))
      else 9.81 * sin (gradeAngle slopePercent))"

definition dragAcceleration :: "real \<Rightarrow> real \<Rightarrow> real \<Rightarrow> real \<Rightarrow> real" where
  "dragAcceleration cd frontalArea mass v = 0.5 * 1.225 * cd * frontalArea * v\<^sup>2 / mass"

definition effectiveAcceleration :: "real \<Rightarrow> real \<Rightarrow> real" where
  "effectiveAcceleration mu slopePercent =
     - (mu * 9.81 * cos (gradeAngle slopePercent)) + slopeAcceleration slopePercent"

subsection \<open>The acceleration of one integration step\<close>

text \<open>
  Both loops compute the same net acceleration from the current speed; it is named here
  so that the facts about the loops can speak of it.
\<close>

definition net_acc :: "real \<Rightarrow> real \<Rightarrow> real \<Rightarrow> real \<Rightarrow> real \<Rightarrow> bool \<Rightarrow> real \<Rightarrow> real" where
  "net_acc mu mass_kg cd frontal_area alpha is_uphill v =
     - mu * G * cos alpha + (if is_uphill then - G * sin alpha else G * sin alpha)
       - (0.5 * AIR_DENSITY * cd * frontal_area * v\<^sup>2) / mass_kg"

text \<open>The speed after one step of the sampler's braking phase, which never goes below zero.\<close>

definition clamped_speed ::
  "real \<Rightarrow> real \<Rightarrow> real \<Rightarrow> real \<Rightarrow> real \<Rightarrow> bool \<Rightarrow> real \<Rightarrow> real \<Rightarrow> real" where
  "clamped_speed mu mass_kg cd frontal_area alpha is_uphill dt v =
     (let v_new = v + net_acc mu mass_kg cd frontal_area alpha is_uphill v * dt
      in if v_new < 0 then 0 else v_new)"

text \<open>
  The speed samples of the braking phase: the speed sequence that the sampler returns,
  without the samples that its reaction phase has put in front.
\<close>

definition braking_samples ::
  "nat \<Rightarrow> real \<Rightarrow> real \<Rightarrow> real \<Rightarrow> real \<Rightarrow> real \<Rightarrow> real \<Rightarrow> real \<Rightarrow> real \<Rightarrow> real list option" where
  "braking_samples fuel speed_kmh mu mass_kg cd frontal_area slope_percent reaction_time dt =
     (case reaction_phase fuel reaction_time dt (convert_kmh_to_ms speed_kmh) (0, 0, [], []) of
        None \<Rightarrow> None
      | Some (x, t, distance_vals, speed_vals_kmh) \<Rightarrow>
          (case get_distance_speed_profile fuel speed_kmh mu mass_kg cd frontal_area
                  slope_percent reaction_time dt of
             Some (Inr (ds, ss)) \<Rightarrow> Some (drop (length speed_vals_kmh) ss)
           | _ \<Rightarrow> None))"

text \<open>The value of the clock \<open>t\<close> when the braking phase of the sampler ends.\<close>

definition braking_end_time ::
  "nat \<Rightarrow> real \<Rightarrow> real \<Rightarrow> real \<Rightarrow> real \<Rightarrow> real \<Rightarrow> real \<Rightarrow> real \<Rightarrow> real \<Rightarrow> real option" where
  "braking_end_time fuel speed_kmh mu mass_kg cd frontal_area slope_percent reaction_time dt =
     (case reaction_phase fuel reaction_time dt (convert_kmh_to_ms speed_kmh) (0, 0, [], []) of
        None \<Rightarrow> None
      | Some (x, t, distance_vals, speed_vals_kmh) \<Rightarrow>
          (case braking_phase fuel mu mass_kg cd frontal_area (arctan (\<bar>slope_percent\<bar> / 100))
                  (slope_percent \<ge> 0) reaction_time dt
                  (x, convert_kmh_to_ms speed_kmh, t, distance_vals, speed_vals_kmh) of
             Some (Inr (x', v', t', distance_vals', speed_vals_kmh')) \<Rightarrow> Some t'
           | _ \<Rightarrow> None))"

section \<open>Auxiliary facts\<close>

lemma cos_gradeAngle_pos: "0 < cos (arctan y)"
  by (simp add: cos_arctan add_pos_nonneg)

lemma sin_arctan_eq: "sin (arctan y) = y * cos (arctan y)"
  by (simp add: sin_arctan cos_arctan)

subsection \<open>The braking loop of the numeric model\<close>

lemma numeric_loop_Suc:
  "numeric_loop (Suc n) mu mass_kg cd frontal_area alpha is_uphill dt (v, x, t) =
     (if t < max_time then
        if mass_kg = 0 then Some (Inl ZeroDivisionError)
        else if v + net_acc mu mass_kg cd frontal_area alpha is_uphill v * dt < 0
          then Some (Inr (v, x + 0.5 * v * dt, t))
        else if v + net_acc mu mass_kg cd frontal_area alpha is_uphill v * dt \<le> 0.01
          then Some (Inr (0, x + 0.5 * (v + (v + net_acc mu mass_kg cd frontal_area alpha is_uphill v * dt)) * dt, t + dt))
        else numeric_loop n mu mass_kg cd frontal_area alpha is_uphill dt
               (v + net_acc mu mass_kg cd frontal_area alpha is_uphill v * dt,
                x + 0.5 * (v + (v + net_acc mu mass_kg cd frontal_area alpha is_uphill v * dt)) * dt,
                t + dt)
      else Some (Inr (v, x, t)))"
  by (simp add: net_acc_def Let_def)

declare numeric_loop.simps(2) [simp del]

lemma numeric_loop_terminates:
  "0 < dt \<Longrightarrow> max_time - t \<le> real n * dt \<Longrightarrow>
   numeric_loop (Suc n) mu mass_kg cd frontal_area alpha is_uphill dt (v, x, t) \<noteq> None"
proof (induction n arbitrary: v x t)
  case 0
  then show ?case by (simp add: numeric_loop_Suc)
next
  case (Suc n)
  have "max_time - (t + dt) \<le> real n * dt"
    using Suc.prems by (simp add: algebra_simps)
  then have "numeric_loop (Suc n) mu mass_kg cd frontal_area alpha is_uphill dt (v', x', t + dt) \<noteq> None"
    for v' x'
    using Suc.IH Suc.prems(1) by blast
  then show ?case
    by (subst numeric_loop_Suc) simp
qed

lemma numeric_loop_fuel_mono:
  "numeric_loop n mu mass_kg cd frontal_area alpha is_uphill dt s = Some r \<Longrightarrow>
   numeric_loop (n + k) mu mass_kg cd frontal_area alpha is_uphill dt s = Some r"
proof (induction n arbitrary: s)
  case 0
  then show ?case by (cases s) simp
next
  case (Suc n)
  obtain v x t where s: "s = (v, x, t)" by (cases s)
  show ?case
    using Suc.prems Suc.IH unfolding s
    by (simp add: numeric_loop_Suc split: if_splits)
qed

lemma numeric_loop_no_error:
  "mass_kg \<noteq> 0 \<Longrightarrow>
   numeric_loop n mu mass_kg cd frontal_area alpha is_uphill dt s \<noteq> Some (Inl e)"
proof (induction n arbitrary: s)
  case 0
  then show ?case by (cases s) simp
next
  case (Suc n)
  obtain v x t where s: "s = (v, x, t)" by (cases s)
  show ?case
    using Suc.prems Suc.IH unfolding s
    by (simp add: numeric_loop_Suc)
qed


lemma spec_acceleration_eq:
  "- (mu * 9.81 * cos (gradeAngle slope_percent)) + slopeAcceleration slope_percent
         - dragAcceleration cd frontal_area mass_kg v
   = net_acc mu mass_kg cd frontal_area (arctan (\<bar>slope_percent\<bar> / 100)) (slope_percent \<ge> 0) v"
  by (simp add: net_acc_def gradeAngle_def slopeAcceleration_def dragAcceleration_def G_def
      AIR_DENSITY_def)

subsection \<open>The two loops of the profile sampler\<close>

lemma braking_phase_Suc:
  "braking_phase (Suc n) mu mass_kg cd frontal_area alpha is_uphill reaction_time dt
       (x, v, t, dvs, svs) =
     (if t \<le> reaction_time + max_time then
        if mass_kg = 0 then Some (Inl ZeroDivisionError)
        else if clamped_speed mu mass_kg cd frontal_area alpha is_uphill dt v \<le> 0.01
          then Some (Inr (x + 0.5 * (v + clamped_speed mu mass_kg cd frontal_area alpha is_uphill dt v) * dt,
                 clamped_speed mu mass_kg cd frontal_area alpha is_uphill dt v, t + dt, dvs @ [x],
                 svs @ [convert_ms_to_kmh (clamped_speed mu mass_kg cd frontal_area alpha is_uphill dt v)]))
        else braking_phase n mu mass_kg cd frontal_area alpha is_uphill reaction_time dt
               (x + 0.5 * (v + clamped_speed mu mass_kg cd frontal_area alpha is_uphill dt v) * dt,
                 clamped_speed mu mass_kg cd frontal_area alpha is_uphill dt v, t + dt, dvs @ [x],
                 svs @ [convert_ms_to_kmh (clamped_speed mu mass_kg cd frontal_area alpha is_uphill dt v)])
      else Some (Inr (x, v, t, dvs, svs)))"
  by (simp add: net_acc_def clamped_speed_def Let_def)

declare braking_phase.simps(2) [simp del]

lemma reaction_phase_terminates:
  "0 < dt \<Longrightarrow> reaction_time - t < real n * dt \<Longrightarrow>
   reaction_phase (Suc n) reaction_time dt v (x, t, dvs, svs) \<noteq> None"
proof (induction n arbitrary: x t dvs svs)
  case 0
  then show ?case by simp
next
  case (Suc n)
  have "reaction_time - (t + dt) < real n * dt"
    using Suc.prems by (simp add: algebra_simps)
  then have "reaction_phase (Suc n) reaction_time dt v (x', t + dt, dvs', svs') \<noteq> None"
    for x' dvs' svs'
    using Suc.IH Suc.prems(1) by blast
  then show ?case
    by (subst reaction_phase.simps) simp
qed

lemma reaction_phase_fuel_mono:
  "reaction_phase n reaction_time dt v s = Some r \<Longrightarrow>
   reaction_phase (n + k) reaction_time dt v s = Some r"
proof (induction n arbitrary: s)
  case 0
  then show ?case by (cases s) simp
next
  case (Suc n)
  obtain x t dvs svs where s: "s = (x, t, dvs, svs)" by (cases s)
  show ?case
    using Suc.prems Suc.IH unfolding s
    by (simp split: if_splits)
qed

lemma braking_phase_terminates:
  "0 < dt \<Longrightarrow> reaction_time + max_time - t < real n * dt \<Longrightarrow>
   braking_phase (Suc n) mu mass_kg cd frontal_area alpha is_uphill reaction_time dt
     (x, v, t, dvs, svs) \<noteq> None"
proof (induction n arbitrary: x v t dvs svs)
  case 0
  then show ?case by (simp add: braking_phase_Suc)
next
  case (Suc n)
  have "reaction_time + max_time - (t + dt) < real n * dt"
    using Suc.prems by (simp add: algebra_simps)
  then have "braking_phase (Suc n) mu mass_kg cd frontal_area alpha is_uphill reaction_time dt
      (x', v', t + dt, dvs', svs') \<noteq> None" for x' v' dvs' svs'
    using Suc.IH Suc.prems(1) by blast
  then show ?case
    by (subst braking_phase_Suc) simp
qed

lemma braking_phase_fuel_mono:
  "braking_phase n mu mass_kg cd frontal_area alpha is_uphill reaction_time dt s = Some r \<Longrightarrow>
   braking_phase (n + k) mu mass_kg cd frontal_area alpha is_uphill reaction_time dt s = Some r"
proof (induction n arbitrary: s)
  case 0
  then show ?case by (cases s) simp
next
  case (Suc n)
  obtain x v t dvs svs where s: "s = (x, v, t, dvs, svs)" by (cases s)
  show ?case
    using Suc.prems Suc.IH unfolding s
    by (simp add: braking_phase_Suc split: if_splits)
qed

lemma braking_phase_no_error:
  "mass_kg \<noteq> 0 \<Longrightarrow>
   braking_phase n mu mass_kg cd frontal_area alpha is_uphill reaction_time dt s \<noteq> Some (Inl e)"
proof (induction n arbitrary: s)
  case 0
  then show ?case by (cases s) simp
next
  case (Suc n)
  obtain x v t dvs svs where s: "s = (x, v, t, dvs, svs)" by (cases s)
  show ?case
    using Suc.prems Suc.IH unfolding s
    by (simp add: braking_phase_Suc)
qed

subsection \<open>The samples of the braking phase\<close>

lemma clamped_speed_nonneg: "0 \<le> clamped_speed mu mass_kg cd frontal_area alpha is_uphill dt v"
  by (simp add: clamped_speed_def Let_def)

lemma clamped_speed_le:
  "0 \<le> v \<Longrightarrow> 0 \<le> dt \<Longrightarrow> net_acc mu mass_kg cd frontal_area alpha is_uphill v \<le> 0 \<Longrightarrow>
   clamped_speed mu mass_kg cd frontal_area alpha is_uphill dt v \<le> v"
proof -
  assume v: "0 \<le> v" and dt: "0 \<le> dt"
    and a: "net_acc mu mass_kg cd frontal_area alpha is_uphill v \<le> 0"
  have "net_acc mu mass_kg cd frontal_area alpha is_uphill v * dt \<le> 0"
    using a dt by (rule mult_nonpos_nonneg)
  then show ?thesis using v by (simp add: clamped_speed_def Let_def)
qed

lemma net_acc_nonpos:
  assumes "- slope_percent \<le> 100 * mu" and "0 < mass_kg" and "0 \<le> cd"
    and "0 \<le> frontal_area"
  shows "net_acc mu mass_kg cd frontal_area (arctan (\<bar>slope_percent\<bar> / 100))
           (slope_percent \<ge> 0) u \<le> 0"
proof -
  let ?al = "arctan (\<bar>slope_percent\<bar> / 100)"
  have c: "0 < cos ?al" by (rule cos_gradeAngle_pos)
  have s: "sin ?al = \<bar>slope_percent\<bar> / 100 * cos ?al" by (rule sin_arctan_eq)
  have drag: "0 \<le> (0.5 * AIR_DENSITY * cd * frontal_area * u\<^sup>2) / mass_kg"
    using assms(2,3,4) by (simp add: AIR_DENSITY_def)
  have pos: "0 \<le> G * cos ?al" using c by (simp add: G_def)
  have bal: "0 \<le> mu + slope_percent / 100" using assms(1) by simp
  have "- mu * G * cos ?al + (if slope_percent \<ge> 0 then - G * sin ?al else G * sin ?al)
      = - (G * cos ?al * (mu + slope_percent / 100))"
    unfolding s by (simp add: algebra_simps)
  moreover have "0 \<le> G * cos ?al * (mu + slope_percent / 100)"
    using pos bal by (rule mult_nonneg_nonneg)
  ultimately have "- mu * G * cos ?al
      + (if slope_percent \<ge> 0 then - G * sin ?al else G * sin ?al) \<le> 0"
    by linarith
  then show ?thesis using drag unfolding net_acc_def by linarith
qed

lemma braking_phase_samples:
  "braking_phase n mu mass_kg cd frontal_area alpha is_uphill reaction_time dt
     (x, v, t, dvs, svs) = Some (Inr (x', v', t', dvs', svs')) \<Longrightarrow>
   \<exists>bs. svs' = svs @ bs
     \<and> ((bs \<noteq> [] \<and> last bs \<le> 0.036) \<or> reaction_time + max_time < t')"
proof (induction n arbitrary: x v t dvs svs)
  case 0
  then show ?case by simp
next
  case (Suc n)
  let ?w = "clamped_speed mu mass_kg cd frontal_area alpha is_uphill dt v"
  let ?next = "(x + 0.5 * (v + ?w) * dt, ?w, t + dt, dvs @ [x], svs @ [convert_ms_to_kmh ?w])"
  consider (stop) "\<not> t \<le> reaction_time + max_time"
    | (err) "t \<le> reaction_time + max_time" "mass_kg = 0"
    | (near) "t \<le> reaction_time + max_time" "mass_kg \<noteq> 0" "?w \<le> 0.01"
    | (go) "t \<le> reaction_time + max_time" "mass_kg \<noteq> 0" "\<not> ?w \<le> 0.01"
    by blast
  then show ?case
  proof cases
    case stop
    then have "svs' = svs @ []" "reaction_time + max_time < t'"
      using Suc.prems by (auto simp: braking_phase_Suc)
    then show ?thesis by blast
  next
    case err
    then show ?thesis using Suc.prems by (simp add: braking_phase_Suc)
  next
    case near
    then have "svs' = svs @ [convert_ms_to_kmh ?w]"
      using Suc.prems by (auto simp: braking_phase_Suc)
    moreover have "convert_ms_to_kmh ?w \<le> 0.036"
      using near(3) by (simp add: convert_ms_to_kmh_def)
    ultimately have "svs' = svs @ [convert_ms_to_kmh ?w]
        \<and> (([convert_ms_to_kmh ?w] \<noteq> [] \<and> last [convert_ms_to_kmh ?w] \<le> 0.036)
            \<or> reaction_time + max_time < t')"
      by simp
    then show ?thesis by blast
  next
    case go
    then have "braking_phase n mu mass_kg cd frontal_area alpha is_uphill reaction_time dt ?next
        = Some (Inr (x', v', t', dvs', svs'))"
      using Suc.prems by (simp add: braking_phase_Suc)
    from Suc.IH [OF this] obtain bs where
      bs: "svs' = (svs @ [convert_ms_to_kmh ?w]) @ bs"
        "(bs \<noteq> [] \<and> last bs \<le> 0.036) \<or> reaction_time + max_time < t'"
      by blast
    let ?cs = "convert_ms_to_kmh ?w # bs"
    have "svs' = svs @ ?cs" using bs(1) by simp
    moreover have "(?cs \<noteq> [] \<and> last ?cs \<le> 0.036) \<or> reaction_time + max_time < t'"
      using bs(2) by auto
    ultimately show ?thesis by blast
  qed
qed

lemma braking_phase_sorted:
  "braking_phase n mu mass_kg cd frontal_area alpha is_uphill reaction_time dt
     (x, v, t, dvs, svs) = Some (Inr (x', v', t', dvs', svs')) \<Longrightarrow>
   svs' = svs @ bs \<Longrightarrow> 0 \<le> v \<Longrightarrow> 0 \<le> dt \<Longrightarrow>
   (\<And>u. 0 \<le> u \<Longrightarrow> net_acc mu mass_kg cd frontal_area alpha is_uphill u \<le> 0) \<Longrightarrow>
   sorted_wrt (\<ge>) bs \<and> (\<forall>b\<in>set bs. b \<le> convert_ms_to_kmh v)"
proof (induction n arbitrary: x v t dvs svs bs)
  case 0
  then show ?case by simp
next
  case (Suc n)
  let ?w = "clamped_speed mu mass_kg cd frontal_area alpha is_uphill dt v"
  let ?next = "(x + 0.5 * (v + ?w) * dt, ?w, t + dt, dvs @ [x], svs @ [convert_ms_to_kmh ?w])"
  have w0: "0 \<le> ?w" by (rule clamped_speed_nonneg)
  have wv: "?w \<le> v" using Suc.prems(3,4) Suc.prems(5) [OF Suc.prems(3)] by (rule clamped_speed_le)
  have cw: "convert_ms_to_kmh ?w \<le> convert_ms_to_kmh v"
    using wv by (simp add: convert_ms_to_kmh_def)
  consider (stop) "\<not> t \<le> reaction_time + max_time"
    | (err) "t \<le> reaction_time + max_time" "mass_kg = 0"
    | (near) "t \<le> reaction_time + max_time" "mass_kg \<noteq> 0" "?w \<le> 0.01"
    | (go) "t \<le> reaction_time + max_time" "mass_kg \<noteq> 0" "\<not> ?w \<le> 0.01"
    by blast
  then show ?case
  proof cases
    case stop
    then have "svs' = svs" using Suc.prems(1) by (auto simp: braking_phase_Suc)
    then have "bs = []" using Suc.prems(2) by simp
    then show ?thesis by simp
  next
    case err
    then show ?thesis using Suc.prems(1) by (simp add: braking_phase_Suc)
  next
    case near
    then have "svs' = svs @ [convert_ms_to_kmh ?w]"
      using Suc.prems(1) by (auto simp: braking_phase_Suc)
    then have "bs = [convert_ms_to_kmh ?w]" using Suc.prems(2) by simp
    then show ?thesis using cw by simp
  next
    case go
    then have run: "braking_phase n mu mass_kg cd frontal_area alpha is_uphill reaction_time dt
        ?next = Some (Inr (x', v', t', dvs', svs'))"
      using Suc.prems(1) by (simp add: braking_phase_Suc)
    from braking_phase_samples [OF run] obtain cs where
      cs: "svs' = (svs @ [convert_ms_to_kmh ?w]) @ cs" by blast
    then have bs: "bs = convert_ms_to_kmh ?w # cs" using Suc.prems(2) by simp
    from Suc.IH [OF run cs w0 Suc.prems(4) Suc.prems(5)]
    have "sorted_wrt (\<ge>) cs" "\<forall>b\<in>set cs. b \<le> convert_ms_to_kmh ?w" by simp_all
    then show ?thesis unfolding bs using cw by auto
  qed
qed

text \<open>From any speed: the first sample of the braking phase has no sample before it.\<close>

lemma braking_phase_sorted_any:
  assumes run: "braking_phase n mu mass_kg cd frontal_area alpha is_uphill reaction_time dt
      (x, v, t, dvs, svs) = Some (Inr (x', v', t', dvs', svs'))"
    and bs: "svs' = svs @ bs" and dt: "0 \<le> dt"
    and acc: "\<And>u. 0 \<le> u \<Longrightarrow> net_acc mu mass_kg cd frontal_area alpha is_uphill u \<le> 0"
  shows "sorted_wrt (\<ge>) bs"
proof (cases n)
  case 0
  then show ?thesis using run by simp
next
  case (Suc k)
  let ?w = "clamped_speed mu mass_kg cd frontal_area alpha is_uphill dt v"
  let ?next = "(x + 0.5 * (v + ?w) * dt, ?w, t + dt, dvs @ [x], svs @ [convert_ms_to_kmh ?w])"
  have w0: "0 \<le> ?w" by (rule clamped_speed_nonneg)
  consider (stop) "\<not> t \<le> reaction_time + max_time"
    | (err) "t \<le> reaction_time + max_time" "mass_kg = 0"
    | (near) "t \<le> reaction_time + max_time" "mass_kg \<noteq> 0" "?w \<le> 0.01"
    | (go) "t \<le> reaction_time + max_time" "mass_kg \<noteq> 0" "\<not> ?w \<le> 0.01"
    by blast
  then show ?thesis
  proof cases
    case stop
    then have "svs' = svs" using run unfolding Suc by (auto simp: braking_phase_Suc)
    then have "bs = []" using bs by simp
    then show ?thesis by simp
  next
    case err
    then show ?thesis using run unfolding Suc by (simp add: braking_phase_Suc)
  next
    case near
    then have "svs' = svs @ [convert_ms_to_kmh ?w]"
      using run unfolding Suc by (auto simp: braking_phase_Suc)
    then have "bs = [convert_ms_to_kmh ?w]" using bs by simp
    then show ?thesis by simp
  next
    case go
    then have run': "braking_phase k mu mass_kg cd frontal_area alpha is_uphill reaction_time dt
        ?next = Some (Inr (x', v', t', dvs', svs'))"
      using run unfolding Suc by (simp add: braking_phase_Suc)
    from braking_phase_samples [OF run'] obtain cs where
      cs: "svs' = (svs @ [convert_ms_to_kmh ?w]) @ cs" by blast
    then have bs': "bs = convert_ms_to_kmh ?w # cs" using bs by simp
    from braking_phase_sorted [OF run' cs w0 dt acc]
    have "sorted_wrt (\<ge>) cs" "\<forall>b\<in>set cs. b \<le> convert_ms_to_kmh ?w" by simp_all
    then show ?thesis unfolding bs' by auto
  qed
qed

lemma profile_unfold:
  assumes "get_distance_speed_profile fuel speed_kmh mu mass_kg cd frontal_area slope_percent
      reaction_time dt = Some (Inr (ds, ss))"
  obtains x t dvs svs x' v' t' where
    "reaction_phase fuel reaction_time dt (convert_kmh_to_ms speed_kmh) (0, 0, [], [])
       = Some (x, t, dvs, svs)"
    "braking_phase fuel mu mass_kg cd frontal_area (arctan (\<bar>slope_percent\<bar> / 100))
       (0 \<le> slope_percent) reaction_time dt (x, convert_kmh_to_ms speed_kmh, t, dvs, svs)
       = Some (Inr (x', v', t', ds, ss))"
  using assms
  by (auto simp: get_distance_speed_profile_def Let_def split: option.splits sum.splits)

lemma braking_phase_two_steps:
  assumes run: "braking_phase (Suc (Suc n)) mu mass_kg cd frontal_area alpha is_uphill
      reaction_time dt (x, v, t, dvs, svs) = Some (Inr (x', v', t', dvs', svs'))"
    and t1: "t \<le> reaction_time + max_time" and t2: "t + dt \<le> reaction_time + max_time"
    and m: "mass_kg \<noteq> 0"
    and w1: "\<not> clamped_speed mu mass_kg cd frontal_area alpha is_uphill dt v \<le> 0.01"
  shows "\<exists>rest. svs' = svs @
      convert_ms_to_kmh (clamped_speed mu mass_kg cd frontal_area alpha is_uphill dt v)
      # convert_ms_to_kmh (clamped_speed mu mass_kg cd frontal_area alpha is_uphill dt
          (clamped_speed mu mass_kg cd frontal_area alpha is_uphill dt v))
      # rest"
proof -
  let ?w1 = "clamped_speed mu mass_kg cd frontal_area alpha is_uphill dt v"
  let ?w2 = "clamped_speed mu mass_kg cd frontal_area alpha is_uphill dt ?w1"
  let ?s1 = "(x + 0.5 * (v + ?w1) * dt, ?w1, t + dt, dvs @ [x], svs @ [convert_ms_to_kmh ?w1])"
  have step1: "braking_phase (Suc n) mu mass_kg cd frontal_area alpha is_uphill
      reaction_time dt ?s1 = Some (Inr (x', v', t', dvs', svs'))"
    using run t1 m w1 by (simp add: braking_phase_Suc)
  show ?thesis
  proof (cases "?w2 \<le> 0.01")
    case True
    then have "svs' = (svs @ [convert_ms_to_kmh ?w1]) @ [convert_ms_to_kmh ?w2]"
      using step1 t2 m by (auto simp: braking_phase_Suc)
    then show ?thesis by simp
  next
    case False
    then have "braking_phase n mu mass_kg cd frontal_area alpha is_uphill reaction_time dt
        (x + 0.5 * (v + ?w1) * dt + 0.5 * (?w1 + ?w2) * dt, ?w2, t + dt + dt,
         (dvs @ [x]) @ [x + 0.5 * (v + ?w1) * dt],
         (svs @ [convert_ms_to_kmh ?w1]) @ [convert_ms_to_kmh ?w2])
        = Some (Inr (x', v', t', dvs', svs'))"
      using step1 t2 m by (simp add: braking_phase_Suc)
    from braking_phase_samples [OF this] obtain bs where
      "svs' = ((svs @ [convert_ms_to_kmh ?w1]) @ [convert_ms_to_kmh ?w2]) @ bs" by blast
    then show ?thesis by simp
  qed
qed

subsection \<open>Enough fuel for every loop\<close>

text \<open>
  These are facts of the model, where every addition of \<open>dt\<close> to the clock is exact: the
  fuel named here counts the tests of a loop's guard over the real numbers. The float
  clock of the source rounds each sum, so its loops can take a different number of
  iterations.
\<close>

lemma floor_fuel: "0 < dt \<Longrightarrow> y < real (nat \<lfloor>y / dt\<rfloor> + 1) * dt"
proof -
  assume dt: "0 < dt"
  have "y / dt < real_of_int \<lfloor>y / dt\<rfloor> + 1" by linarith
  also have "\<dots> \<le> real (nat \<lfloor>y / dt\<rfloor> + 1)" by simp
  finally show ?thesis using dt by (simp add: pos_divide_less_eq)
qed

lemma ceiling_fuel: "0 < dt \<Longrightarrow> y \<le> real (nat \<lceil>y / dt\<rceil>) * dt"
proof -
  assume dt: "0 < dt"
  have "y / dt \<le> real_of_int \<lceil>y / dt\<rceil>" by linarith
  also have "\<dots> \<le> real (nat \<lceil>y / dt\<rceil>)" by simp
  finally show ?thesis using dt by (simp add: pos_divide_le_eq)
qed

lemma reaction_phase_time:
  "reaction_phase n reaction_time dt v (x, t, dvs, svs) = Some (x', t', dvs', svs') \<Longrightarrow>
   0 \<le> dt \<Longrightarrow> t \<le> t' \<and> (t \<le> reaction_time + dt \<longrightarrow> t' \<le> reaction_time + dt)"
proof (induction n arbitrary: x t dvs svs)
  case 0
  then show ?case by simp
next
  case (Suc n)
  show ?case
  proof (cases "t \<le> reaction_time")
    case True
    then have "reaction_phase n reaction_time dt v
        (x + v * dt, t + dt, dvs @ [x], svs @ [convert_ms_to_kmh v]) = Some (x', t', dvs', svs')"
      using Suc.prems by simp
    from Suc.IH [OF this Suc.prems(2)] True Suc.prems(2) show ?thesis by simp
  next
    case False
    then show ?thesis using Suc.prems by simp
  qed
qed

lemma numeric_loop_fuel_le:
  "numeric_loop n mu mass_kg cd frontal_area alpha is_uphill dt s = Some r \<Longrightarrow> n \<le> m \<Longrightarrow>
   numeric_loop m mu mass_kg cd frontal_area alpha is_uphill dt s = Some r"
  using numeric_loop_fuel_mono [of n mu mass_kg cd frontal_area alpha is_uphill dt s r "m - n"]
  by simp

lemma reaction_phase_fuel_le:
  "reaction_phase n reaction_time dt v s = Some r \<Longrightarrow> n \<le> m \<Longrightarrow>
   reaction_phase m reaction_time dt v s = Some r"
  using reaction_phase_fuel_mono [of n reaction_time dt v s r "m - n"] by simp

lemma braking_phase_fuel_le:
  "braking_phase n mu mass_kg cd frontal_area alpha is_uphill reaction_time dt s = Some r \<Longrightarrow>
   n \<le> m \<Longrightarrow>
   braking_phase m mu mass_kg cd frontal_area alpha is_uphill reaction_time dt s = Some r"
  using braking_phase_fuel_mono
    [of n mu mass_kg cd frontal_area alpha is_uphill reaction_time dt s r "m - n"] by simp

lemma numeric_terminates_top:
  assumes "0 < dt" and "Suc (nat \<lceil>max_time / dt\<rceil>) \<le> fuel"
  shows "stopping_distance_numeric_drag fuel speed_kmh mu mass_kg cd frontal_area
           slope_percent reaction_time dt \<noteq> None"
proof -
  let ?n = "nat \<lceil>max_time / dt\<rceil>"
  let ?loop = "\<lambda>k. numeric_loop k mu mass_kg cd frontal_area (arctan (\<bar>slope_percent\<bar> / 100))
      (0 \<le> slope_percent) dt (convert_kmh_to_ms speed_kmh, 0, 0)"
  have "max_time - 0 \<le> real ?n * dt" using ceiling_fuel [OF assms(1)] by simp
  then have "?loop (Suc ?n) \<noteq> None" by (rule numeric_loop_terminates [OF assms(1)])
  then obtain r where "?loop (Suc ?n) = Some r" by blast
  then have "?loop fuel = Some r" using assms(2) by (rule numeric_loop_fuel_le)
  then show ?thesis
    by (simp add: stopping_distance_numeric_drag_def Let_def split: sum.splits prod.splits)
qed

lemma profile_terminates_top:
  assumes "0 < dt" and "nat \<lfloor>(reaction_time + max_time) / dt\<rfloor> + 2 \<le> fuel"
  shows "get_distance_speed_profile fuel speed_kmh mu mass_kg cd frontal_area
           slope_percent reaction_time dt \<noteq> None"
proof -
  let ?n = "nat \<lfloor>(reaction_time + max_time) / dt\<rfloor> + 1"
  let ?v = "convert_kmh_to_ms speed_kmh"
  have big: "reaction_time + max_time < real ?n * dt" by (rule floor_fuel [OF assms(1)])
  have fuel: "Suc ?n \<le> fuel" using assms(2) by simp
  have "reaction_time - 0 < real ?n * dt" using big by (simp add: max_time_def)
  then have "reaction_phase (Suc ?n) reaction_time dt ?v (0, 0, [], []) \<noteq> None"
    by (rule reaction_phase_terminates [OF assms(1)])
  then obtain x t dvs svs where
    "reaction_phase (Suc ?n) reaction_time dt ?v (0, 0, [], []) = Some (x, t, dvs, svs)"
    by (metis not_None_eq prod_cases4)
  then have r: "reaction_phase fuel reaction_time dt ?v (0, 0, [], []) = Some (x, t, dvs, svs)"
    using fuel by (rule reaction_phase_fuel_le)
  have "0 \<le> t" using reaction_phase_time [OF r] assms(1) by simp
  then have "reaction_time + max_time - t < real ?n * dt" using big by simp
  then have "braking_phase (Suc ?n) mu mass_kg cd frontal_area (arctan (\<bar>slope_percent\<bar> / 100))
      (0 \<le> slope_percent) reaction_time dt (x, ?v, t, dvs, svs) \<noteq> None"
    by (rule braking_phase_terminates [OF assms(1)])
  then obtain b where "braking_phase (Suc ?n) mu mass_kg cd frontal_area
      (arctan (\<bar>slope_percent\<bar> / 100)) (0 \<le> slope_percent) reaction_time dt
      (x, ?v, t, dvs, svs) = Some b" by blast
  then have "braking_phase fuel mu mass_kg cd frontal_area
      (arctan (\<bar>slope_percent\<bar> / 100)) (0 \<le> slope_percent) reaction_time dt
      (x, ?v, t, dvs, svs) = Some b" using fuel by (rule braking_phase_fuel_le)
  with r show ?thesis
    by (simp add: get_distance_speed_profile_def Let_def split: sum.splits prod.splits)
qed

text \<open>With a positive step, a mass that is not zero and enough fuel, a result is returned.\<close>

lemma numeric_returns:
  assumes "0 < dt" and "mass_kg \<noteq> 0" and "Suc (nat \<lceil>max_time / dt\<rceil>) \<le> fuel"
  shows "\<exists>r. stopping_distance_numeric_drag fuel speed_kmh mu mass_kg cd frontal_area
           slope_percent reaction_time dt = Some (Inr r)"
proof -
  let ?loop = "numeric_loop fuel mu mass_kg cd frontal_area (arctan (\<bar>slope_percent\<bar> / 100))
      (0 \<le> slope_percent) dt (convert_kmh_to_ms speed_kmh, 0, 0)"
  have "stopping_distance_numeric_drag fuel speed_kmh mu mass_kg cd frontal_area
      slope_percent reaction_time dt \<noteq> None"
    using assms(1,3) by (rule numeric_terminates_top)
  then obtain l where l: "?loop = Some l"
    by (auto simp: stopping_distance_numeric_drag_def Let_def split: option.splits)
  from numeric_loop_no_error [OF assms(2), of fuel mu cd frontal_area
      "arctan (\<bar>slope_percent\<bar> / 100)" "0 \<le> slope_percent" dt
      "(convert_kmh_to_ms speed_kmh, 0, 0)"] l
  obtain v x t where "l = Inr (v, x, t)" by (cases l) auto
  with l show ?thesis
    by (simp add: stopping_distance_numeric_drag_def Let_def)
qed

lemma profile_returns:
  assumes "0 < dt" and "mass_kg \<noteq> 0"
    and "nat \<lfloor>(reaction_time + max_time) / dt\<rfloor> + 2 \<le> fuel"
  shows "\<exists>ds ss. get_distance_speed_profile fuel speed_kmh mu mass_kg cd frontal_area
           slope_percent reaction_time dt = Some (Inr (ds, ss))"
proof -
  have "get_distance_speed_profile fuel speed_kmh mu mass_kg cd frontal_area
      slope_percent reaction_time dt \<noteq> None"
    using assms(1,3) by (rule profile_terminates_top)
  then obtain x t dvs svs b where
    r: "reaction_phase fuel reaction_time dt (convert_kmh_to_ms speed_kmh) (0, 0, [], [])
        = Some (x, t, dvs, svs)"
    and b: "braking_phase fuel mu mass_kg cd frontal_area (arctan (\<bar>slope_percent\<bar> / 100))
        (0 \<le> slope_percent) reaction_time dt (x, convert_kmh_to_ms speed_kmh, t, dvs, svs)
        = Some b"
    by (auto simp: get_distance_speed_profile_def Let_def split: option.splits)
  from braking_phase_no_error [OF assms(2), of fuel mu cd frontal_area
      "arctan (\<bar>slope_percent\<bar> / 100)" "0 \<le> slope_percent" reaction_time dt
      "(x, convert_kmh_to_ms speed_kmh, t, dvs, svs)"] b
  obtain x' v' t' ds ss where "b = Inr (x', v', t', ds, ss)" by (cases b) auto
  with r b show ?thesis
    by (simp add: get_distance_speed_profile_def Let_def)
qed

subsection \<open>Two runs of the braking loop from different speeds\<close>









lemma closed_form_cases:
  "stopping_distance_simple_friction speed_kmh mu slope_percent reaction_time =
     (if effectiveAcceleration mu slope_percent \<le> 0
      then (PosInf, PosInf, Finite (convert_kmh_to_ms speed_kmh * reaction_time))
      else (Finite (convert_kmh_to_ms speed_kmh * reaction_time
                + (convert_kmh_to_ms speed_kmh)\<^sup>2 / (2 * effectiveAcceleration mu slope_percent)),
            Finite ((convert_kmh_to_ms speed_kmh)\<^sup>2 / (2 * effectiveAcceleration mu slope_percent)),
            Finite (convert_kmh_to_ms speed_kmh * reaction_time)))"
proof -
  have "- mu * G * cos (arctan (\<bar>slope_percent\<bar> / 100))
      + (if slope_percent \<ge> 0 then - G * sin (arctan (\<bar>slope_percent\<bar> / 100))
         else G * sin (arctan (\<bar>slope_percent\<bar> / 100)))
      = effectiveAcceleration mu slope_percent"
    by (simp add: effectiveAcceleration_def slopeAcceleration_def gradeAngle_def G_def)
  then show ?thesis
    by (simp add: stopping_distance_simple_friction_def Let_def)
qed

lemma effectiveAcceleration_ice_downhill: "0 < effectiveAcceleration 0.05 (-8)"
proof -
  have c: "0 < cos (arctan (2/25 :: real))" by (rule cos_gradeAngle_pos)
  have s: "sin (arctan (2/25 :: real)) = 2/25 * cos (arctan (2/25))" by (rule sin_arctan_eq)
  have "effectiveAcceleration 0.05 (-8) = 9.81 * 0.03 * cos (arctan (2/25))"
    by (simp add: effectiveAcceleration_def slopeAcceleration_def gradeAngle_def s)
  then show ?thesis using c by simp
qed


subsection \<open>A coarse step with strong drag\<close>



subsection \<open>A steep icy downhill\<close>

text \<open>
  Ice with poor tyres and no ABS gives \<open>mu = 0.05\<close>; on the steepest downhill of the
  menu, 8 percent, the net acceleration stays positive around 10 m/s.
\<close>

lemma clamped_speed_eq:
  "0 \<le> v + net_acc mu mass_kg cd frontal_area alpha is_uphill v * dt \<Longrightarrow>
   clamped_speed mu mass_kg cd frontal_area alpha is_uphill dt v
     = v + net_acc mu mass_kg cd frontal_area alpha is_uphill v * dt"
  by (simp add: clamped_speed_def Let_def)

lemma downhill_ice_acc:
  assumes "10 \<le> u" and "u \<le> 10.02"
  shows "0 < net_acc 0.05 1300 0.29 2.2 (arctan (2/25)) False u
       \<and> net_acc 0.05 1300 0.29 2.2 (arctan (2/25)) False u \<le> 0.2943"
proof -
  let ?c = "cos (arctan (2/25 :: real))"
  have s: "sin (arctan (2/25 :: real)) = 2/25 * ?c" by (rule sin_arctan_eq)
  have "sqrt (1 + (2/25)\<^sup>2) \<le> sqrt (2\<^sup>2 :: real)"
    by (subst real_sqrt_le_iff) (simp add: power2_eq_square)
  then have "sqrt (1 + (2/25)\<^sup>2 :: real) \<le> 2" by simp
  moreover have "0 < sqrt (1 + (2/25)\<^sup>2 :: real)" by (simp add: power2_eq_square)
  ultimately have "1 / 2 \<le> 1 / sqrt (1 + (2/25)\<^sup>2 :: real)"
    by (simp add: field_simps)
  then have c_lo: "1 / 2 \<le> ?c" by (simp add: cos_arctan)
  have c_hi: "?c \<le> 1" by (rule cos_le_one)
  have "u\<^sup>2 \<le> (10.02)\<^sup>2" using assms by (intro power_mono) simp_all
  then have u_hi: "u\<^sup>2 \<le> 100.4004" by (simp add: power2_eq_square)
  have u_lo: "0 \<le> u\<^sup>2" by simp
  have eq: "net_acc 0.05 1300 0.29 2.2 (arctan (2/25)) False u
      = 0.2943 * ?c - 0.390775 / 1300 * u\<^sup>2"
    by (simp add: net_acc_def G_def AIR_DENSITY_def s)
  have f_lo: "0.14715 \<le> 0.2943 * ?c" using c_lo by simp
  have f_hi: "0.2943 * ?c \<le> 0.2943" using c_hi by simp
  have d_hi: "0.390775 / 1300 * u\<^sup>2 \<le> 0.390775 / 1300 * 100.4004"
    using u_hi by (intro mult_left_mono) simp_all
  have d_lo: "0 \<le> 0.390775 / 1300 * u\<^sup>2" by simp
  have num: "0.390775 / 1300 * 100.4004 < (0.14715::real)" by simp
  show ?thesis unfolding eq using f_lo f_hi d_hi d_lo num by linarith
qed

lemma downhill_ice_samples:
  assumes enough: "6022 \<le> fuel"
  shows "(case braking_samples fuel 36 0.05 1300 0.29 2.2 (-8) 1 0.05 of
      Some (s1 # s2 # rest) \<Rightarrow> s1 < s2
    | _ \<Rightarrow> False)"
proof -
  let ?cl = "clamped_speed 0.05 1300 0.29 2.2 (arctan (2/25)) False 0.05"
  have "nat \<lfloor>((1::real) + max_time) / 0.05\<rfloor> + 2 \<le> fuel"
    using enough by (simp add: max_time_def)
  from profile_terminates_top [OF _ this, of 36 "0.05" 1300 "0.29" "2.2" "-8"]
  obtain res where res: "get_distance_speed_profile fuel 36 0.05 1300 0.29 2.2 (-8) 1 0.05
      = Some res" by auto
  then obtain x t dvs svs b where
    r: "reaction_phase fuel 1 0.05 10 (0, 0, [], []) = Some (x, t, dvs, svs)"
    and b: "braking_phase fuel 0.05 1300 0.29 2.2 (arctan (2/25)) False 1 0.05
        (x, 10, t, dvs, svs) = Some b"
    by (auto simp: get_distance_speed_profile_def convert_kmh_to_ms_def Let_def
        split: option.splits)
  from braking_phase_no_error [of 1300 fuel "0.05" "0.29" "2.2" "arctan (2/25)" False 1 "0.05"
      "(x, 10, t, dvs, svs)"] b
  obtain x' v' t' ds ss where b': "b = Inr (x', v', t', ds, ss)"
    by (cases b) auto
  have t: "t \<le> 1.05" using reaction_phase_time [OF r] by simp
  have a10: "0 < net_acc 0.05 1300 0.29 2.2 (arctan (2/25)) False 10"
    "net_acc 0.05 1300 0.29 2.2 (arctan (2/25)) False 10 \<le> 0.2943"
    using downhill_ice_acc [of 10] by simp_all
  have w1: "?cl 10 = 10 + net_acc 0.05 1300 0.29 2.2 (arctan (2/25)) False 10 * 0.05"
    using a10(1) by (intro clamped_speed_eq) simp
  have w1_lo: "10 < ?cl 10" and w1_hi: "?cl 10 \<le> 10.02"
    unfolding w1 using a10 by simp_all
  have a1: "0 < net_acc 0.05 1300 0.29 2.2 (arctan (2/25)) False (?cl 10)"
    using downhill_ice_acc [of "?cl 10"] w1_lo w1_hi by simp
  have w2: "?cl (?cl 10) = ?cl 10
      + net_acc 0.05 1300 0.29 2.2 (arctan (2/25)) False (?cl 10) * 0.05"
    using a1 w1_lo by (intro clamped_speed_eq) simp
  have incr: "?cl 10 < ?cl (?cl 10)"
    using a1 by (subst w2) simp
  have "2 \<le> fuel" using enough by simp
  from le_Suc_ex [OF this] obtain n where "fuel = 2 + n" by blast
  then have fuel: "fuel = Suc (Suc n)" by simp
  have "braking_phase (Suc (Suc n)) 0.05 1300 0.29 2.2 (arctan (2/25)) False 1 0.05
        (x, 10, t, dvs, svs) = Some (Inr (x', v', t', ds, ss))"
    using b b' fuel by simp
  from braking_phase_two_steps [OF this] t w1_lo
  obtain rest where rest: "ss = svs @ convert_ms_to_kmh (?cl 10)
      # convert_ms_to_kmh (?cl (?cl 10)) # rest"
    by (auto simp: max_time_def)
  have "braking_samples fuel 36 0.05 1300 0.29 2.2 (-8) 1 0.05
      = Some (convert_ms_to_kmh (?cl 10) # convert_ms_to_kmh (?cl (?cl 10)) # rest)"
    using r b b' rest
    by (simp add: braking_samples_def get_distance_speed_profile_def convert_kmh_to_ms_def
        Let_def)
  then show ?thesis using incr by (simp add: convert_ms_to_kmh_def)
qed

subsection \<open>A dry flat road\<close>

text \<open>
  At 60 km/h with \<open>mu = 0.7\<close> on a flat road and \<open>dt = 0.05\<close> the braking phase of the
  sampler records at least two samples.
\<close>

lemma flat_dry_samples:
  assumes run: "get_distance_speed_profile fuel 60 0.7 1300 0.29 2.2 0 1 0.05
      = Some (Inr (ds, ss))"
  shows "\<exists>c1 c2 rest. braking_samples fuel 60 0.7 1300 0.29 2.2 0 1 0.05
      = Some (c1 # c2 # rest)"
proof -
  let ?v = "convert_kmh_to_ms 60"
  let ?al = "arctan (\<bar>0::real\<bar> / 100)"
  let ?cl = "clamped_speed 0.7 1300 0.29 2.2 ?al ((0::real) \<le> 0) 0.05"
  from run obtain x t dvs svs x' v' t' where
    r: "reaction_phase fuel 1 0.05 ?v (0, 0, [], []) = Some (x, t, dvs, svs)"
    and b: "braking_phase fuel 0.7 1300 0.29 2.2 ?al ((0::real) \<le> 0) 1 0.05
       (x, ?v, t, dvs, svs) = Some (Inr (x', v', t', ds, ss))"
    by (rule profile_unfold)
  have t: "t \<le> 1.05" using reaction_phase_time [OF r] by simp
  have w1: "\<not> ?cl ?v \<le> 0.01"
    by (simp add: clamped_speed_def net_acc_def convert_kmh_to_ms_def G_def AIR_DENSITY_def
        Let_def power2_eq_square)
  have "fuel \<noteq> 0" using b by (cases fuel) auto
  then obtain m where m: "fuel = Suc m" by (cases fuel) auto
  have "m \<noteq> 0"
  proof
    assume "m = 0"
    then have "braking_phase (Suc 0) 0.7 1300 0.29 2.2 ?al ((0::real) \<le> 0) 1 0.05
       (x, ?v, t, dvs, svs) = Some (Inr (x', v', t', ds, ss))" using b m by simp
    then show False using t w1 by (simp add: braking_phase_Suc max_time_def)
  qed
  then obtain n where n: "m = Suc n" by (cases m) auto
  have "braking_phase (Suc (Suc n)) 0.7 1300 0.29 2.2 ?al ((0::real) \<le> 0) 1 0.05
       (x, ?v, t, dvs, svs) = Some (Inr (x', v', t', ds, ss))" using b m n by simp
  from braking_phase_two_steps [OF this _ _ _ w1] t
  obtain rest where "ss = svs @ convert_ms_to_kmh (?cl ?v)
      # convert_ms_to_kmh (?cl (?cl ?v)) # rest"
    by (auto simp: max_time_def)
  then have "braking_samples fuel 60 0.7 1300 0.29 2.2 0 1 0.05
      = Some (convert_ms_to_kmh (?cl ?v) # convert_ms_to_kmh (?cl (?cl ?v)) # rest)"
    using r run by (simp add: braking_samples_def)
  then show ?thesis by blast
qed

subsection \<open>Both models at two speeds\<close>



subsection \<open>A downhill of 75 percent with a coarse step\<close>






section \<open>The friction combiner\<close>

text \<open>
  C8: for every weather friction, tyre factor and ABS flag, \<open>calc_final_friction\<close> returns
  the maximum of \<open>weather_mu * tyre_factor + (0.05 if abs_active else 0)\<close> and \<open>0.01\<close>;
  the result is at least \<open>0.01\<close>, hence strictly positive. The function is total: it has
  no error value.
\<close>

theorem calc_final_friction_floor:
  "calc_final_friction weather_mu tyre_factor abs_active
     = max (weather_mu * tyre_factor + (if abs_active then 0.05 else 0)) 0.01
   \<and> 0.01 \<le> calc_final_friction weather_mu tyre_factor abs_active
   \<and> 0 < calc_final_friction weather_mu tyre_factor abs_active"
  by (simp add: calc_final_friction_def Let_def max_def)

section \<open>The closed-form model\<close>

text \<open>
  C1: the closed-form model is to return infinite braking and total distances exactly when
  the effective acceleration is at least zero. The source tests \<^verbatim>\<open>a_eff <= 0\<close>
  instead. On ice with poor tyres (\<open>mu = 0.05\<close>) and a steep downhill of 8 percent, at
  60 km/h with one second of reaction time, the effective acceleration is positive (the
  car cannot stop), and the source returns finite distances: the braking distance is the
  square of the speed over twice the effective acceleration.
\<close>

theorem closed_form_runaway_is_finite:
  "0 < effectiveAcceleration 0.05 (-8) \<and>
   stopping_distance_simple_friction 60 0.05 (-8) 1
     = (Finite (50/3 + (50/3)\<^sup>2 / (2 * effectiveAcceleration 0.05 (-8))),
        Finite ((50/3)\<^sup>2 / (2 * effectiveAcceleration 0.05 (-8))), Finite (50/3))"
  using effectiveAcceleration_ice_downhill
  by (simp add: closed_form_cases convert_kmh_to_ms_def)

text \<open>
  C2: on a flat road the closed-form model is to return the braking distance
  \<open>speedMs\<^sup>2 / (2 * mu * g)\<close>, about 40.46 m at 60 km/h with \<open>mu = 0.7\<close>. There the
  effective acceleration of the source is \<open>- mu * g\<close>, which is negative, and the source
  returns infinite braking and total distances, with the reaction distance 50/3 m.
\<close>

theorem closed_form_flat_is_infinite:
  "stopping_distance_simple_friction 60 0.7 0 1 = (PosInf, PosInf, Finite (50/3))"
  by (simp add: stopping_distance_simple_friction_def convert_kmh_to_ms_def G_def Let_def)

section \<open>The numeric model\<close>

text \<open>
  C5: when the braking loop ends because the next speed would be negative, the final
  velocity is to be zero. The source zeroes \<^verbatim>\<open>v_new\<close> and returns \<^verbatim>\<open>v\<close>: at
  0.18 km/h (0.05 m/s) with \<open>mu = 0.7\<close> on a flat road the first step already ends the
  loop, and the final velocity returned is 0.05 m/s.
\<close>

theorem numeric_clamp_returns_old_speed:
  "stopping_distance_numeric_drag 1 0.18 0.7 1300 0.29 2.2 0 1 0.01
   = Some (Inr \<lparr>dist_total = 0.05025, dist_reaction = 0.05, dist_braking = 0.00025,
        total_time = 1, final_v = 0.05\<rparr>)"
  by (simp add: stopping_distance_numeric_drag_def convert_kmh_to_ms_def G_def AIR_DENSITY_def
      max_time_def Let_def power2_eq_square numeric_loop.simps(2))

text \<open>
  C4: in an iteration of the braking loop (the time is below the cap and the mass is not
  zero) the acceleration is \<open>a = - mu * g * cos alpha + slopeAcceleration - dragAcceleration\<close>,
  with the slope and drag accelerations of the specification, and the next speed is
  \<open>vNext = v + a * dt\<close>. When \<open>vNext\<close> is not negative the step adds the trapezoidal
  distance \<open>0.5 * (v + vNext) * dt\<close> and advances the time by \<open>dt\<close>; the loop then
  stops with speed zero if \<open>vNext \<le> 0.01\<close>, and goes on from \<open>vNext\<close> otherwise.
\<close>

theorem numeric_step_formula:
  assumes "t < max_time" and "mass_kg \<noteq> 0"
    and "a = - (mu * 9.81 * cos (gradeAngle slope_percent)) + slopeAcceleration slope_percent
         - dragAcceleration cd frontal_area mass_kg v"
    and "vNext = v + a * dt" and "0 \<le> vNext"
  shows "numeric_loop (Suc n) mu mass_kg cd frontal_area (arctan (\<bar>slope_percent\<bar> / 100))
       (slope_percent \<ge> 0) dt (v, x, t)
     = (if vNext \<le> 0.01 then Some (Inr (0, x + 0.5 * (v + vNext) * dt, t + dt))
        else numeric_loop n mu mass_kg cd frontal_area (arctan (\<bar>slope_percent\<bar> / 100))
               (slope_percent \<ge> 0) dt (vNext, x + 0.5 * (v + vNext) * dt, t + dt))"
proof -
  have w: "v + net_acc mu mass_kg cd frontal_area (arctan (\<bar>slope_percent\<bar> / 100))
      (slope_percent \<ge> 0) v * dt = vNext"
    using assms(3,4) spec_acceleration_eq [of mu slope_percent cd frontal_area mass_kg v]
    by simp
  have nn: "\<not> vNext < 0" using assms(5) by simp
  show ?thesis
    by (subst numeric_loop_Suc) (simp only: w assms(1,2) nn if_True if_False)
qed

theorem numeric_step_formula_witness:
  "(0::real) < max_time \<and> (1300::real) \<noteq> 0
   \<and> (0::real) \<le> 0.07 + (- (0.7 * 9.81 * cos (gradeAngle 0)) + slopeAcceleration 0
         - dragAcceleration 0.29 2.2 1300 0.07) * 0.01
   \<and> numeric_loop (Suc 0) 0.7 1300 0.29 2.2 (arctan (\<bar>0\<bar> / 100)) ((0::real) \<ge> 0) 0.01
         (0.07, 0, 0)
       = Some (Inr (0, 0 + 0.5 * (0.07 + (0.07 + (- (0.7 * 9.81 * cos (gradeAngle 0))
            + slopeAcceleration 0 - dragAcceleration 0.29 2.2 1300 0.07) * 0.01)) * 0.01,
            0 + 0.01))"
proof -
  let ?a = "- (0.7 * 9.81 * cos (gradeAngle 0)) + slopeAcceleration 0
         - dragAcceleration 0.29 2.2 1300 0.07"
  have h1: "(0::real) < max_time" by (simp add: max_time_def)
  have h2: "(1300::real) \<noteq> 0" by simp
  have h3: "(0::real) \<le> 0.07 + ?a * 0.01"
    by (simp add: gradeAngle_def slopeAcceleration_def dragAcceleration_def power2_eq_square)
  have h4: "0.07 + ?a * 0.01 \<le> 0.01"
    by (simp add: gradeAngle_def slopeAcceleration_def dragAcceleration_def power2_eq_square)
  show ?thesis
    using h1 h2 h3 h4 numeric_step_formula [OF h1 h2 refl refl h3, where n = 0 and x = 0]
    by simp
qed



section \<open>The profile sampler\<close>

text \<open>
  C6, as the source has it. Whenever the sampler returns, the last sample is at most
  0.036 km/h (0.01 m/s) unless the braking phase ended by its time test, with its clock
  above \<open>reaction_time + 300\<close>. The speed samples of the braking phase are non-increasing
  when the time step, the drag coefficient and the frontal area are not negative, the
  mass is positive and the friction is at least the downhill grade
  (\<open>- slope_percent \<le> 100 * mu\<close>). With a positive time step, a mass that is not zero
  and enough fuel the sampler returns.
\<close>

theorem profile_speeds_shape:
  "(get_distance_speed_profile fuel speed_kmh mu mass_kg cd frontal_area slope_percent
        reaction_time dt = Some (Inr (ds, ss))
      \<longrightarrow> (ss \<noteq> [] \<and> last ss \<le> 0.036)
          \<or> (\<exists>t'. braking_end_time fuel speed_kmh mu mass_kg cd frontal_area slope_percent
                 reaction_time dt = Some t' \<and> reaction_time + max_time < t'))
   \<and> (get_distance_speed_profile fuel speed_kmh mu mass_kg cd frontal_area slope_percent
        reaction_time dt = Some (Inr (ds, ss))
        \<and> 0 \<le> dt \<and> 0 < mass_kg \<and> 0 \<le> cd \<and> 0 \<le> frontal_area
        \<and> - slope_percent \<le> 100 * mu
      \<longrightarrow> (\<exists>bs. braking_samples fuel speed_kmh mu mass_kg cd frontal_area slope_percent
                 reaction_time dt = Some bs \<and> sorted_wrt (\<ge>) bs))
   \<and> (0 < dt \<and> mass_kg \<noteq> 0 \<and> nat \<lfloor>(reaction_time + max_time) / dt\<rfloor> + 2 \<le> fuel
      \<longrightarrow> (\<exists>ds' ss'. get_distance_speed_profile fuel speed_kmh mu mass_kg cd frontal_area
                 slope_percent reaction_time dt = Some (Inr (ds', ss'))))"
proof -
  let ?v = "convert_kmh_to_ms speed_kmh"
  let ?al = "arctan (\<bar>slope_percent\<bar> / 100)"
  let ?run = "get_distance_speed_profile fuel speed_kmh mu mass_kg cd frontal_area
      slope_percent reaction_time dt = Some (Inr (ds, ss))"
  have shape: "((ss \<noteq> [] \<and> last ss \<le> 0.036)
          \<or> (\<exists>t'. braking_end_time fuel speed_kmh mu mass_kg cd frontal_area slope_percent
                 reaction_time dt = Some t' \<and> reaction_time + max_time < t'))
      \<and> (0 \<le> dt \<and> 0 < mass_kg \<and> 0 \<le> cd \<and> 0 \<le> frontal_area
            \<and> - slope_percent \<le> 100 * mu
          \<longrightarrow> (\<exists>bs. braking_samples fuel speed_kmh mu mass_kg cd frontal_area slope_percent
                 reaction_time dt = Some bs \<and> sorted_wrt (\<ge>) bs))"
    if run: ?run
  proof -
    from run obtain x t dvs svs x' v' t' where
      r: "reaction_phase fuel reaction_time dt ?v (0, 0, [], []) = Some (x, t, dvs, svs)"
      and b: "braking_phase fuel mu mass_kg cd frontal_area ?al (0 \<le> slope_percent)
         reaction_time dt (x, ?v, t, dvs, svs) = Some (Inr (x', v', t', ds, ss))"
      by (rule profile_unfold)
    from braking_phase_samples [OF b] obtain bs where
      bs: "ss = svs @ bs"
        "(bs \<noteq> [] \<and> last bs \<le> 0.036) \<or> reaction_time + max_time < t'" by blast
    have clock: "braking_end_time fuel speed_kmh mu mass_kg cd frontal_area slope_percent
        reaction_time dt = Some t'"
      using r b by (simp add: braking_end_time_def)
    have last: "(ss \<noteq> [] \<and> last ss \<le> 0.036)
          \<or> (\<exists>t'. braking_end_time fuel speed_kmh mu mass_kg cd frontal_area slope_percent
                 reaction_time dt = Some t' \<and> reaction_time + max_time < t')"
      using bs(2) clock by (auto simp: bs(1))
    have samples: "braking_samples fuel speed_kmh mu mass_kg cd frontal_area slope_percent
        reaction_time dt = Some bs"
      using r run bs(1) by (simp add: braking_samples_def)
    have sorted: "sorted_wrt (\<ge>) bs"
      if h: "0 \<le> dt \<and> 0 < mass_kg \<and> 0 \<le> cd \<and> 0 \<le> frontal_area
            \<and> - slope_percent \<le> 100 * mu"
    proof -
      have acc: "net_acc mu mass_kg cd frontal_area ?al (0 \<le> slope_percent) u \<le> 0" for u
        using h net_acc_nonpos [of slope_percent mu mass_kg cd frontal_area u] by simp
      from braking_phase_sorted_any [OF b bs(1) _ acc] h show ?thesis by simp
    qed
    show ?thesis using last samples sorted by blast
  qed
  have returns: "\<exists>ds' ss'. get_distance_speed_profile fuel speed_kmh mu mass_kg cd
      frontal_area slope_percent reaction_time dt = Some (Inr (ds', ss'))"
    if "0 < dt \<and> mass_kg \<noteq> 0 \<and> nat \<lfloor>(reaction_time + max_time) / dt\<rfloor> + 2 \<le> fuel"
    using that profile_returns [of dt mass_kg reaction_time fuel speed_kmh mu cd frontal_area
        slope_percent] by blast
  show ?thesis using shape returns by blast
qed

theorem profile_speeds_shape_witness:
  "(0::real) < 0.05 \<and> (0::real) < 1300 \<and> (0::real) \<le> 0.29 \<and> (0::real) \<le> 2.2
   \<and> - (0::real) \<le> 100 * 0.7 \<and> nat \<lfloor>(1 + max_time) / 0.05\<rfloor> + 2 \<le> 7000
   \<and> (\<exists>ds ss bs. get_distance_speed_profile 7000 60 0.7 1300 0.29 2.2 0 1 0.05
                     = Some (Inr (ds, ss))
         \<and> braking_samples 7000 60 0.7 1300 0.29 2.2 0 1 0.05 = Some bs
         \<and> sorted_wrt (\<ge>) bs \<and> 2 \<le> length bs
         \<and> ((ss \<noteq> [] \<and> last ss \<le> 0.036)
             \<or> (\<exists>t'. braking_end_time 7000 60 0.7 1300 0.29 2.2 0 1 0.05 = Some t'
                   \<and> 1 + max_time < t')))"
proof -
  have h: "(0::real) < 0.05 \<and> (0::real) < 1300 \<and> (0::real) \<le> 0.29 \<and> (0::real) \<le> 2.2
      \<and> - (0::real) \<le> 100 * 0.7 \<and> nat \<lfloor>(1 + max_time) / 0.05\<rfloor> + 2 \<le> 7000"
    by (simp add: max_time_def)
  note inst = profile_speeds_shape [where fuel = 7000 and speed_kmh = 60 and mu = "0.7"
      and mass_kg = 1300 and cd = "0.29" and frontal_area = "2.2" and slope_percent = 0
      and reaction_time = 1 and dt = "0.05"]
  have h3: "(0::real) < 0.05 \<and> (1300::real) \<noteq> 0
      \<and> nat \<lfloor>(1 + max_time) / 0.05\<rfloor> + 2 \<le> 7000"
    by (simp add: max_time_def)
  from h3 inst [of "[]" "[]"] obtain ds ss where
    run: "get_distance_speed_profile 7000 60 0.7 1300 0.29 2.2 0 1 0.05 = Some (Inr (ds, ss))"
    by blast
  from h run inst [of ds ss] obtain bs where
    bs: "braking_samples 7000 60 0.7 1300 0.29 2.2 0 1 0.05 = Some bs" "sorted_wrt (\<ge>) bs"
    by auto
  from run inst [of ds ss] have last: "(ss \<noteq> [] \<and> last ss \<le> 0.036)
             \<or> (\<exists>t'. braking_end_time 7000 60 0.7 1300 0.29 2.2 0 1 0.05 = Some t'
                   \<and> 1 + max_time < t')"
    by blast
  from flat_dry_samples [OF run] bs(1) have "2 \<le> length bs" by auto
  then show ?thesis using h run bs last by blast
qed

text \<open>
  Without the condition on the friction the speed can grow in the braking phase: at
  36 km/h with \<open>mu = 0.05\<close> on a downhill of 8 percent (mass 1300 kg, \<open>cd = 0.29\<close>,
  frontal area 2.2 square metres, reaction time 1 s, \<open>dt = 0.05\<close>) the second sample of the
  braking phase is above the first.
\<close>

theorem profile_speeds_increase_counterexample:
  "(case braking_samples 7000 36 0.05 1300 0.29 2.2 (-8) 1 0.05 of
      Some (s1 # s2 # rest) \<Rightarrow> s1 < s2
    | _ \<Rightarrow> False)"
  by (rule downhill_ice_samples) simp

section \<open>The reaction distance\<close>

text \<open>
  C9: in the closed-form model and in the numeric model the reaction distance returned is
  the speed in m/s times the reaction time, whatever the friction, the slope, the mass,
  the drag coefficient and the frontal area are; the numeric model returns it whenever
  the time step is positive, the mass is not zero and the fuel is enough.
\<close>

theorem reaction_distance_both_models:
  "snd (snd (stopping_distance_simple_friction speed_kmh mu slope_percent reaction_time))
     = Finite (speedMs speed_kmh * reaction_time)
   \<and> (stopping_distance_numeric_drag fuel speed_kmh mu mass_kg cd frontal_area slope_percent
         reaction_time dt = Some (Inr r)
       \<longrightarrow> dist_reaction r = speedMs speed_kmh * reaction_time)
   \<and> (0 < dt \<and> mass_kg \<noteq> 0 \<and> Suc (nat \<lceil>max_time / dt\<rceil>) \<le> fuel
       \<longrightarrow> (\<exists>r'. stopping_distance_numeric_drag fuel speed_kmh mu mass_kg cd frontal_area
                  slope_percent reaction_time dt = Some (Inr r')
                \<and> dist_reaction r' = speedMs speed_kmh * reaction_time))"
proof -
  have closed: "snd (snd (stopping_distance_simple_friction speed_kmh mu slope_percent
      reaction_time)) = Finite (speedMs speed_kmh * reaction_time)"
    by (simp add: stopping_distance_simple_friction_def convert_kmh_to_ms_def speedMs_def
        Let_def)
  have part: "dist_reaction q = speedMs speed_kmh * reaction_time"
    if "stopping_distance_numeric_drag fuel speed_kmh mu mass_kg cd frontal_area slope_percent
         reaction_time dt = Some (Inr q)" for q
    using that
    by (auto simp: stopping_distance_numeric_drag_def convert_kmh_to_ms_def speedMs_def Let_def
        split: option.splits sum.splits)
  have total: "\<exists>r'. stopping_distance_numeric_drag fuel speed_kmh mu mass_kg cd frontal_area
                  slope_percent reaction_time dt = Some (Inr r')
                \<and> dist_reaction r' = speedMs speed_kmh * reaction_time"
    if "0 < dt \<and> mass_kg \<noteq> 0 \<and> Suc (nat \<lceil>max_time / dt\<rceil>) \<le> fuel"
  proof -
    from that numeric_returns [of dt mass_kg fuel speed_kmh mu cd frontal_area slope_percent
        reaction_time]
    obtain q where "stopping_distance_numeric_drag fuel speed_kmh mu mass_kg cd frontal_area
        slope_percent reaction_time dt = Some (Inr q)" by blast
    then show ?thesis using part by blast
  qed
  show ?thesis using closed part total by blast
qed

theorem reaction_distance_both_models_witness:
  "(0::real) < 0.01 \<and> (1300::real) \<noteq> 0 \<and> Suc (nat \<lceil>max_time / 0.01\<rceil>) \<le> 30001
   \<and> (\<exists>r. stopping_distance_numeric_drag 30001 60 0.7 1300 0.29 2.2 0 1 0.01 = Some (Inr r)
         \<and> dist_reaction r = speedMs 60 * 1)
   \<and> snd (snd (stopping_distance_simple_friction 60 0.7 0 1)) = Finite (speedMs 60 * 1)"
proof -
  have h: "(0::real) < 0.01 \<and> (1300::real) \<noteq> 0 \<and> Suc (nat \<lceil>max_time / 0.01\<rceil>) \<le> 30001"
    by (simp add: max_time_def)
  show ?thesis
    using h reaction_distance_both_models [where speed_kmh = 60 and mu = "0.7"
        and slope_percent = 0 and reaction_time = 1 and fuel = 30001 and mass_kg = 1300
        and cd = "0.29" and frontal_area = "2.2" and dt = "0.01"]
    by blast
qed

section \<open>Monotonicity in the speed\<close>




end
